theory Spec2Isabelle
  imports Main "HOL-Library.AList"
begin

section \<open>GenericPrometheusCheck: the data the coordinator handles\<close>

text \<open>
  The values of an instance record come from YAML. The model keeps the shapes the
  coordinator itself can tell apart: \<open>None\<close>, a string, a list and a dictionary with
  string keys (an association list read with \<open>map_of\<close>). Numbers and booleans are
  left out of the value type: the coordinator never computes with one.
\<close>

datatype pyval =
    PyNone
  | PyStr string
  | PyList "pyval list"
  | PyDict "(string \<times> pyval) list"

text \<open>
  The two messages of \<open>CheckException\<close> that \<open>check\<close> builds; the second one is a
  template formatted with the endpoint, kept here unformatted.
\<close>

datatype message =
    UnableToFindUrl
  | CollectAtLeastOneMetric pyval

text \<open>
  The \<open>TypeError\<close>s Python raises in this file: a call with too few or too many
  positional arguments, an unhashable dictionary key, a subscript on \<open>None\<close>, a
  string subscript on a list, and iteration over \<open>None\<close>.
\<close>

datatype type_error =
    MissingPositionalArgument
  | TooManyPositionalArguments
  | UnhashableType
  | NotSubscriptable
  | BadIndexType
  | NotIterable

datatype error =
    CheckException message
  | TypeError type_error
  | AttributeError
  | MixinError string

text \<open>
  The scraper configuration is the dictionary produced by the mixin's
  \<open>create_mixin_configuration\<close>; the record holds the entries this file reads.
  Dictionaries are association lists (\<open>metrics_mapper\<close> is only tested for emptiness,
  \<open>labels_mapper\<close> is read with \<open>map_of\<close>).
\<close>

record scraper_config =
  metrics_mapper :: "(string \<times> string) list"
  custom_tags :: "string list"
  exclude_labels :: "string list"
  labels_mapper :: "(string \<times> string) list"
  namespace :: string

text \<open>A decoded sample: \<open>metric.label\<close> is a sequence of (name, value) pairs.\<close>

record label =
  label_name :: string
  label_value :: string

record metric =
  label :: "label list"

text \<open>
  Every call that leaves this file is recorded, in order: the two calls into the mixin
  and the three submission primitives of the host API (\<open>AgentCheck\<close>). The type
  variable is the type of a sample's value, which this file only passes on.
\<close>

datatype 'v call =
    CreateMixinConfiguration pyval pyval pyval
  | Process pyval scraper_config bool
  | Rate string 'v "string list" "string option"
  | Gauge string 'v "string list" "string option"
  | MonotonicCount string 'v "string list" "string option"

text \<open>
  The attributes of a \<open>GenericPrometheusCheck\<close> object, and the record of its outgoing
  calls. \<open>config_map\<close> is a Python dictionary: an association list whose assignment
  \<open>d[k] = v\<close> is \<open>AList.update\<close>. \<open>NAMESPACE\<close> is the class attribute read by the
  submission methods.
\<close>

record 'v check_state =
  config_map :: "(pyval \<times> scraper_config) list"
  default_instances :: pyval
  default_namespace :: pyval
  NAMESPACE :: string
  calls :: "'v call list"

text \<open>
  \<open>PrometheusScraperMixin\<close> is outside this file. Its two methods called here are
  parameters of the model: what \<open>create_mixin_configuration\<close> returns or raises for an
  instance, the default instances and the default namespace, and whether \<open>process\<close>
  returns (\<open>None\<close>) or raises for an endpoint, a configuration and \<open>ignore_unmapped\<close>.
\<close>

record mixin =
  create_mixin_configuration :: "pyval \<Rightarrow> pyval \<Rightarrow> pyval \<Rightarrow> error + scraper_config"
  process :: "pyval \<Rightarrow> scraper_config \<Rightarrow> bool \<Rightarrow> error option"

text \<open>
  The fourth positional parameter of the submission methods is called
  \<open>custom_tags\<close>, defaults to \<open>None\<close> and is documented as an array of tags;
  \<open>_metric_tags\<close> binds it to its parameter \<open>scraper_config\<close> and subscripts it with
  string keys. The three shapes it can take:
\<close>

datatype tags_arg =
    ArgNone
  | ArgTags "string list"
  | ArgConfig scraper_config

type_synonym 'v finalize_hook =
  "string list \<Rightarrow> string \<Rightarrow> 'v \<Rightarrow> metric \<Rightarrow> string list option \<Rightarrow> string option \<Rightarrow> string list"

section \<open>Python primitives used by the methods\<close>

text \<open>\<open>d.get(key, None)\<close>: only a dictionary has the method.\<close>

fun py_get :: "pyval \<Rightarrow> string \<Rightarrow> error + pyval" where
  "py_get (PyDict kvs) key = (case map_of kvs key of None \<Rightarrow> Inr PyNone | Some v \<Rightarrow> Inr v)"
| "py_get PyNone key = Inl AttributeError"
| "py_get (PyStr s) key = Inl AttributeError"
| "py_get (PyList xs) key = Inl AttributeError"

text \<open>A dictionary key must be hashable: lists and dictionaries are not.\<close>

fun hashable :: "pyval \<Rightarrow> bool" where
  "hashable PyNone = True"
| "hashable (PyStr s) = True"
| "hashable (PyList xs) = False"
| "hashable (PyDict kvs) = False"

section \<open>The methods of GenericPrometheusCheck\<close>

text \<open>
  \<open>get_scraper_config(self, endpoint, instance)\<close>: the stored configuration when the
  endpoint is a key of \<open>config_map\<close>, otherwise the mixin's builder is called and its
  result stored under the endpoint. A builder that raises leaves the map as it was.
\<close>

definition get_scraper_config ::
  "mixin \<Rightarrow> 'v check_state \<Rightarrow> pyval \<Rightarrow> pyval \<Rightarrow> (error + scraper_config) \<times> 'v check_state" where
  "get_scraper_config mx st endpoint instance =
     (if \<not> hashable endpoint then (Inl (TypeError UnhashableType), st)
      else case map_of (config_map st) endpoint of
        Some config \<Rightarrow> (Inr config, st)
      | None \<Rightarrow>
          (let st1 = st\<lparr>calls := calls st @
                  [CreateMixinConfiguration instance (default_instances st) (default_namespace st)]\<rparr>
           in case create_mixin_configuration mx instance (default_instances st) (default_namespace st) of
                Inl e \<Rightarrow> (Inl e, st1)
              | Inr config \<Rightarrow>
                  (Inr config, st1\<lparr>config_map := AList.update endpoint config (config_map st1)\<rparr>)))"

text \<open>
  A call \<open>self.get_scraper_config(*args)\<close>: Python binds the positional arguments to
  the two required parameters \<open>endpoint\<close> and \<open>instance\<close> before the body runs,
  and raises \<open>TypeError\<close> when their number is not two.
\<close>

definition call_get_scraper_config ::
  "mixin \<Rightarrow> 'v check_state \<Rightarrow> pyval list \<Rightarrow> (error + scraper_config) \<times> 'v check_state" where
  "call_get_scraper_config mx st args =
     (if length args < 2 then (Inl (TypeError MissingPositionalArgument), st)
      else if length args > 2 then (Inl (TypeError TooManyPositionalArguments), st)
      else get_scraper_config mx st (args ! 0) (args ! 1))"

text \<open>
  \<open>__init__\<close>: the attributes are set, then the loop over \<open>instances\<close> calls
  \<open>self.get_scraper_config(instance)\<close>, with one argument. The first exception ends the
  loop and the constructor. The result is the exception, if any, and the attributes at
  that moment. \<open>instances\<close> defaults to \<open>None\<close>, which is not iterable. The arguments
  \<open>name\<close>, \<open>init_config\<close> and \<open>agentConfig\<close> only go to the constructor of
  \<open>AgentCheck\<close> and are left out.
\<close>

fun init_loop :: "mixin \<Rightarrow> 'v check_state \<Rightarrow> pyval list \<Rightarrow> error option \<times> 'v check_state" where
  "init_loop mx st [] = (None, st)"
| "init_loop mx st (instance # rest) =
     (case call_get_scraper_config mx st [instance] of
        (Inl e, st') \<Rightarrow> (Some e, st')
      | (Inr config, st') \<Rightarrow> init_loop mx st' rest)"

definition init ::
  "mixin \<Rightarrow> string \<Rightarrow> pyval list option \<Rightarrow> pyval \<Rightarrow> pyval \<Rightarrow> error option \<times> 'v check_state" where
  "init mx ns instances default_instances' default_namespace' =
     (let st = \<lparr>config_map = [], default_instances = default_instances',
                default_namespace = default_namespace', NAMESPACE = ns, calls = []\<rparr>
      in case instances of
           None \<Rightarrow> (Some (TypeError NotIterable), st)
         | Some xs \<Rightarrow> init_loop mx st xs)"

text \<open>
  \<open>check(self, instance)\<close>. The result is the exception raised, if any (\<open>None\<close> when
  the method returns), and the object's state afterwards.
\<close>

definition check :: "mixin \<Rightarrow> 'v check_state \<Rightarrow> pyval \<Rightarrow> error option \<times> 'v check_state" where
  "check mx st instance =
     (case py_get instance ''prometheus_url'' of
        Inl e \<Rightarrow> (Some e, st)
      | Inr endpoint \<Rightarrow>
          if endpoint = PyNone then (Some (CheckException UnableToFindUrl), st)
          else (case get_scraper_config mx st endpoint instance of
                  (Inl e, st') \<Rightarrow> (Some e, st')
                | (Inr scraper_config, st') \<Rightarrow>
                    if metrics_mapper scraper_config = []
                    then (Some (CheckException (CollectAtLeastOneMetric endpoint)), st')
                    else (process mx endpoint scraper_config True,
                          st'\<lparr>calls := calls st' @ [Process endpoint scraper_config True]\<rparr>)))"

text \<open>
  \<open>_finalize_tags_to_submit\<close>, the default of the hook a subclass may override.
\<close>

definition finalize_tags_to_submit :: "'v finalize_hook" where
  "finalize_tags_to_submit tags metric_name val m custom_tags' hostname = tags"

text \<open>
  The loop of \<open>_metric_tags\<close> over \<open>metric.label\<close>, appending to \<open>_tags\<close>.
\<close>

fun metric_tags_loop :: "scraper_config \<Rightarrow> label list \<Rightarrow> string list \<Rightarrow> string list" where
  "metric_tags_loop cfg [] tags = tags"
| "metric_tags_loop cfg (l # ls) tags =
     (if label_name l \<notin> set (exclude_labels cfg)
      then (let tag_name = (case map_of (labels_mapper cfg) (label_name l) of
                              None \<Rightarrow> label_name l
                            | Some mapped \<Rightarrow> mapped)
            in metric_tags_loop cfg ls (tags @ [tag_name @ '':'' @ label_value l]))
      else metric_tags_loop cfg ls tags)"

text \<open>
  \<open>_metric_tags(self, metric_name, val, metric, scraper_config, hostname)\<close>. The first
  argument of the model is the hook \<open>self._finalize_tags_to_submit\<close> resolves to.
  Subscripting \<open>None\<close> or a list with \<open>'custom_tags'\<close> raises \<open>TypeError\<close>.
\<close>

definition metric_tags ::
  "'v finalize_hook \<Rightarrow> string \<Rightarrow> 'v \<Rightarrow> metric \<Rightarrow> tags_arg \<Rightarrow> string option \<Rightarrow> error + string list" where
  "metric_tags finalize metric_name val m scraper_config hostname =
     (case scraper_config of
        ArgConfig cfg \<Rightarrow>
          Inr (finalize (metric_tags_loop cfg (label m) (custom_tags cfg))
                 metric_name val m (Some (custom_tags cfg)) hostname)
      | ArgNone \<Rightarrow> Inl (TypeError NotSubscriptable)
      | ArgTags ts \<Rightarrow> Inl (TypeError BadIndexType))"

text \<open>
  \<open>_submit_rate\<close>, \<open>_submit_gauge\<close> and \<open>_submit_monotonic_count\<close>: the tags are
  computed, then the primitive is called with the name
  \<open>'{}.{}'.format(self.NAMESPACE, metric_name)\<close>.
\<close>

definition submit_rate ::
  "'v finalize_hook \<Rightarrow> 'v check_state \<Rightarrow> string \<Rightarrow> 'v \<Rightarrow> metric \<Rightarrow> tags_arg \<Rightarrow> string option
     \<Rightarrow> error option \<times> 'v check_state" where
  "submit_rate finalize st metric_name val m custom_tags' hostname =
     (case metric_tags finalize metric_name val m custom_tags' hostname of
        Inl e \<Rightarrow> (Some e, st)
      | Inr tags \<Rightarrow>
          (None, st\<lparr>calls := calls st @
                      [Rate (NAMESPACE st @ ''.'' @ metric_name) val tags hostname]\<rparr>))"

definition submit_gauge ::
  "'v finalize_hook \<Rightarrow> 'v check_state \<Rightarrow> string \<Rightarrow> 'v \<Rightarrow> metric \<Rightarrow> tags_arg \<Rightarrow> string option
     \<Rightarrow> error option \<times> 'v check_state" where
  "submit_gauge finalize st metric_name val m custom_tags' hostname =
     (case metric_tags finalize metric_name val m custom_tags' hostname of
        Inl e \<Rightarrow> (Some e, st)
      | Inr tags \<Rightarrow>
          (None, st\<lparr>calls := calls st @
                      [Gauge (NAMESPACE st @ ''.'' @ metric_name) val tags hostname]\<rparr>))"

definition submit_monotonic_count ::
  "'v finalize_hook \<Rightarrow> 'v check_state \<Rightarrow> string \<Rightarrow> 'v \<Rightarrow> metric \<Rightarrow> tags_arg \<Rightarrow> string option
     \<Rightarrow> error option \<times> 'v check_state" where
  "submit_monotonic_count finalize st metric_name val m custom_tags' hostname =
     (case metric_tags finalize metric_name val m custom_tags' hostname of
        Inl e \<Rightarrow> (Some e, st)
      | Inr tags \<Rightarrow>
          (None, st\<lparr>calls := calls st @
                      [MonotonicCount (NAMESPACE st @ ''.'' @ metric_name) val tags hostname]\<rparr>))"

section \<open>Observing the object over its lifetime\<close>

text \<open>Which recorded calls are calls of the mixin's \<open>process\<close>.\<close>

fun is_process :: "'v call \<Rightarrow> bool" where
  "is_process (Process endpoint cfg ignore_unmapped) = True"
| "is_process (CreateMixinConfiguration i d n) = False"
| "is_process (Rate n v ts h) = False"
| "is_process (Gauge n v ts h) = False"
| "is_process (MonotonicCount n v ts h) = False"

text \<open>
  The calls a coordinator receives after its construction: the agent calls \<open>check\<close>,
  a subclass or the mixin calls the other methods. An exception ends the call, not the
  object, so a sequence of calls is run on the state each one leaves.
\<close>

datatype 'v op =
    OpCheck pyval
  | OpGetScraperConfig pyval pyval
  | OpSubmitRate string 'v metric tags_arg "string option"
  | OpSubmitGauge string 'v metric tags_arg "string option"
  | OpSubmitMonotonicCount string 'v metric tags_arg "string option"

fun step :: "mixin \<Rightarrow> 'v finalize_hook \<Rightarrow> 'v check_state \<Rightarrow> 'v op \<Rightarrow> 'v check_state" where
  "step mx h st (OpCheck instance) = snd (check mx st instance)"
| "step mx h st (OpGetScraperConfig endpoint instance) =
     snd (get_scraper_config mx st endpoint instance)"
| "step mx h st (OpSubmitRate n v m a hn) = snd (submit_rate h st n v m a hn)"
| "step mx h st (OpSubmitGauge n v m a hn) = snd (submit_gauge h st n v m a hn)"
| "step mx h st (OpSubmitMonotonicCount n v m a hn) =
     snd (submit_monotonic_count h st n v m a hn)"

fun run :: "mixin \<Rightarrow> 'v finalize_hook \<Rightarrow> 'v check_state \<Rightarrow> 'v op list \<Rightarrow> 'v check_state" where
  "run mx h st [] = st"
| "run mx h st (x # xs) = run mx h (step mx h st x) xs"

section \<open>Concrete inputs\<close>

text \<open>
  The instance of the class's docstring, a configuration, a stand-in for the mixin
  (a configuration maps a metric exactly when the instance lists one; \<open>process\<close>
  returns), a freshly built object with \<open>NAMESPACE = 'foo'\<close>, and a sample.
\<close>

definition example_instance :: pyval where
  "example_instance =
     PyDict [(''prometheus_url'', PyStr ''http://foobar/endpoint''),
             (''namespace'', PyStr ''foobar''),
             (''metrics'', PyList [PyStr ''bar'', PyStr ''foo''])]"

definition example_config :: scraper_config where
  "example_config =
     \<lparr>metrics_mapper = [(''bar'', ''bar''), (''foo'', ''foo'')],
      custom_tags = [''env:prod''],
      exclude_labels = [''job''],
      labels_mapper = [(''instance'', ''host'')],
      namespace = ''foobar''\<rparr>"

definition example_mixin :: mixin where
  "example_mixin =
     \<lparr>create_mixin_configuration =
        (\<lambda>instance defaults ns.
           case py_get instance ''metrics'' of
             Inr (PyList (x # xs)) \<Rightarrow> Inr example_config
           | _ \<Rightarrow> Inr (example_config\<lparr>metrics_mapper := []\<rparr>)),
      process = (\<lambda>endpoint cfg ignore_unmapped. None)\<rparr>"

definition example_state :: "'v check_state" where
  "example_state =
     \<lparr>config_map = [], default_instances = PyDict [], default_namespace = PyNone,
      NAMESPACE = ''foo'', calls = []\<rparr>"

definition example_sample :: metric where
  "example_sample =
     \<lparr>label = [\<lparr>label_name = ''instance'', label_value = ''a''\<rparr>,
               \<lparr>label_name = ''job'', label_value = ''x''\<rparr>]\<rparr>"

section \<open>The configuration cache: helper facts\<close>

lemma update_absent: "map_of al k = None \<Longrightarrow> AList.update k v al = al @ [(k, v)]"
  by (induction al) (auto split: if_splits)

lemma get_scraper_config_hit:
  "hashable e \<Longrightarrow> map_of (config_map st) e = Some c \<Longrightarrow>
   get_scraper_config mx st e i = (Inr c, st)"
  by (simp add: get_scraper_config_def)

lemma get_scraper_config_miss:
  "hashable e \<Longrightarrow> map_of (config_map st) e = None \<Longrightarrow>
   create_mixin_configuration mx i (default_instances st) (default_namespace st) = Inr c \<Longrightarrow>
   get_scraper_config mx st e i =
     (Inr c, st\<lparr>calls := calls st @
                  [CreateMixinConfiguration i (default_instances st) (default_namespace st)],
               config_map := config_map st @ [(e, c)]\<rparr>)"
  by (simp add: get_scraper_config_def Let_def update_absent)

lemma get_scraper_config_miss_raise:
  "hashable e \<Longrightarrow> map_of (config_map st) e = None \<Longrightarrow>
   create_mixin_configuration mx i (default_instances st) (default_namespace st) = Inl err \<Longrightarrow>
   get_scraper_config mx st e i =
     (Inl err, st\<lparr>calls := calls st @
                  [CreateMixinConfiguration i (default_instances st) (default_namespace st)]\<rparr>)"
  by (simp add: get_scraper_config_def Let_def)

lemma get_scraper_config_stored:
  "get_scraper_config mx st e i = (Inr c, st') \<Longrightarrow> map_of (config_map st') e = Some c"
  by (auto simp: get_scraper_config_def Let_def update_conv'
           split: if_splits option.splits sum.splits)

lemma get_scraper_config_keeps:
  "map_of (config_map st) k = Some c \<Longrightarrow>
   map_of (config_map (snd (get_scraper_config mx st e i))) k = Some c"
  by (auto simp: get_scraper_config_def Let_def update_conv'
           split: if_splits option.splits sum.splits)

lemma get_scraper_config_distinct:
  "distinct (map fst (config_map st)) \<Longrightarrow>
   distinct (map fst (config_map (snd (get_scraper_config mx st e i))))"
  by (auto simp: get_scraper_config_def Let_def distinct_update
           split: if_splits option.splits sum.splits)

lemma get_scraper_config_process_calls:
  "filter is_process (calls (snd (get_scraper_config mx st e i))) = filter is_process (calls st)"
  by (simp add: get_scraper_config_def Let_def split: option.splits sum.splits)

lemma check_config_map:
  "config_map (snd (check mx st inst)) = config_map st \<or>
   (\<exists>e. config_map (snd (check mx st inst)) =
         config_map (snd (get_scraper_config mx st e inst)))"
proof (cases "py_get inst ''prometheus_url''")
  case (Inl e)
  then show ?thesis by (simp add: check_def)
next
  case (Inr endpoint)
  show ?thesis
  proof (cases "endpoint = PyNone")
    case True
    with Inr show ?thesis by (simp add: check_def)
  next
    case False
    have "config_map (snd (check mx st inst)) =
          config_map (snd (get_scraper_config mx st endpoint inst))"
      using Inr False by (simp add: check_def split: sum.splits prod.splits)
    then show ?thesis by blast
  qed
qed

lemma submit_config_map:
  "config_map (snd (submit_rate h st n v m a hn)) = config_map st"
  "config_map (snd (submit_gauge h st n v m a hn)) = config_map st"
  "config_map (snd (submit_monotonic_count h st n v m a hn)) = config_map st"
  by (simp_all add: submit_rate_def submit_gauge_def submit_monotonic_count_def
               split: sum.splits)

lemma step_keeps:
  "map_of (config_map st) k = Some c \<Longrightarrow> map_of (config_map (step mx h st x)) k = Some c"
proof (cases x)
  case (OpCheck inst)
  assume k: "map_of (config_map st) k = Some c"
  from check_config_map [of mx st inst] k show ?thesis
    unfolding OpCheck by (auto simp: get_scraper_config_keeps)
qed (simp_all add: get_scraper_config_keeps submit_config_map)

lemma step_distinct:
  "distinct (map fst (config_map st)) \<Longrightarrow> distinct (map fst (config_map (step mx h st x)))"
proof (cases x)
  case (OpCheck inst)
  assume d: "distinct (map fst (config_map st))"
  from check_config_map [of mx st inst] d show ?thesis
    unfolding OpCheck by (auto simp: get_scraper_config_distinct)
qed (simp_all add: get_scraper_config_distinct submit_config_map)

lemma run_keeps:
  "map_of (config_map st) k = Some c \<Longrightarrow> map_of (config_map (run mx h st xs)) k = Some c"
  by (induction xs arbitrary: st) (simp_all add: step_keeps)

lemma run_distinct:
  "distinct (map fst (config_map st)) \<Longrightarrow> distinct (map fst (config_map (run mx h st xs)))"
  by (induction xs arbitrary: st) (simp_all add: step_distinct)

lemma init_loop_distinct:
  "distinct (map fst (config_map st)) \<Longrightarrow>
   distinct (map fst (config_map (snd (init_loop mx st xs))))"
  by (induction xs arbitrary: st) (simp_all add: call_get_scraper_config_def)

lemma init_distinct:
  "distinct (map fst (config_map (snd (init mx ns instances di dn))))"
  by (simp add: init_def Let_def init_loop_distinct split: option.splits)

section \<open>Tags and submissions: helper facts\<close>

lemma submit_with_config:
  "submit_rate h st n v m (ArgConfig cfg) hn =
     (None, st\<lparr>calls := calls st @
        [Rate (NAMESPACE st @ ''.'' @ n) v
           (h (metric_tags_loop cfg (label m) (custom_tags cfg)) n v m (Some (custom_tags cfg)) hn) hn]\<rparr>)"
  "submit_gauge h st n v m (ArgConfig cfg) hn =
     (None, st\<lparr>calls := calls st @
        [Gauge (NAMESPACE st @ ''.'' @ n) v
           (h (metric_tags_loop cfg (label m) (custom_tags cfg)) n v m (Some (custom_tags cfg)) hn) hn]\<rparr>)"
  "submit_monotonic_count h st n v m (ArgConfig cfg) hn =
     (None, st\<lparr>calls := calls st @
        [MonotonicCount (NAMESPACE st @ ''.'' @ n) v
           (h (metric_tags_loop cfg (label m) (custom_tags cfg)) n v m (Some (custom_tags cfg)) hn) hn]\<rparr>)"
  by (simp_all add: submit_rate_def submit_gauge_def submit_monotonic_count_def metric_tags_def)

lemma metric_tags_loop_append:
  "metric_tags_loop cfg ls (ts @ us) = ts @ metric_tags_loop cfg ls us"
  by (induction ls arbitrary: us) (simp_all add: Let_def)

section \<open>The default tag hook\<close>

text \<open>
  C7. The default \<open>_finalize_tags_to_submit\<close> returns the tag list it is given,
  whatever the metric name, the value, the sample, the custom tags and the hostname.
\<close>

theorem finalize_tags_to_submit_identity:
  "finalize_tags_to_submit tags metric_name val m ctags hostname = tags"
  by (simp add: finalize_tags_to_submit_def)

section \<open>check\<close>

text \<open>
  C1. For every instance record without a \<open>prometheus_url\<close> entry, \<open>check\<close> raises
  \<open>CheckException\<close> and leaves the object as it was: no call of \<open>process\<close> and no
  call of the configuration builder is recorded, and \<open>config_map\<close> gains no entry.
\<close>

theorem check_missing_prometheus_url:
  "map_of kvs ''prometheus_url'' = None \<Longrightarrow>
   check mx st (PyDict kvs) = (Some (CheckException UnableToFindUrl), st)"
  by (simp add: check_def)

theorem check_missing_prometheus_url_witness:
  "map_of [(''namespace'', PyStr ''foobar'')] ''prometheus_url'' = None \<and>
   check example_mixin (example_state :: int check_state)
       (PyDict [(''namespace'', PyStr ''foobar'')])
     = (Some (CheckException UnableToFindUrl), example_state)"
  using check_missing_prometheus_url
          [of "[(''namespace'', PyStr ''foobar'')]" example_mixin
              "example_state :: int check_state"]
  by simp

text \<open>
  C2. When the instance has an endpoint and the configuration \<open>get_scraper_config\<close>
  resolves for it has an empty \<open>metrics_mapper\<close>, \<open>check\<close> raises \<open>CheckException\<close>
  in the state \<open>get_scraper_config\<close> left, and the recorded calls of \<open>process\<close> are
  those recorded before the call: \<open>process\<close> is not invoked.
\<close>

theorem check_empty_metrics_mapper:
  assumes "py_get inst ''prometheus_url'' = Inr endpoint"
    and "endpoint \<noteq> PyNone"
    and "get_scraper_config mx st endpoint inst = (Inr cfg, st')"
    and "metrics_mapper cfg = []"
  shows "check mx st inst = (Some (CheckException (CollectAtLeastOneMetric endpoint)), st') \<and>
         filter is_process (calls (snd (check mx st inst))) = filter is_process (calls st)"
proof -
  have c: "check mx st inst = (Some (CheckException (CollectAtLeastOneMetric endpoint)), st')"
    using assms by (simp add: check_def)
  have "filter is_process (calls st') = filter is_process (calls st)"
    using get_scraper_config_process_calls [of mx st endpoint inst] assms(3) by simp
  with c show ?thesis by simp
qed

theorem check_empty_metrics_mapper_witness:
  "py_get (PyDict [(''prometheus_url'', PyStr ''http://foobar/endpoint'')]) ''prometheus_url''
     = Inr (PyStr ''http://foobar/endpoint'') \<and>
   PyStr ''http://foobar/endpoint'' \<noteq> PyNone \<and>
   get_scraper_config example_mixin
       (example_state\<lparr>config_map :=
          [(PyStr ''http://foobar/endpoint'', example_config\<lparr>metrics_mapper := []\<rparr>)]\<rparr>
          :: int check_state)
       (PyStr ''http://foobar/endpoint'')
       (PyDict [(''prometheus_url'', PyStr ''http://foobar/endpoint'')])
     = (Inr (example_config\<lparr>metrics_mapper := []\<rparr>),
        example_state\<lparr>config_map :=
          [(PyStr ''http://foobar/endpoint'', example_config\<lparr>metrics_mapper := []\<rparr>)]\<rparr>) \<and>
   metrics_mapper (example_config\<lparr>metrics_mapper := []\<rparr>) = [] \<and>
   check example_mixin
       (example_state\<lparr>config_map :=
          [(PyStr ''http://foobar/endpoint'', example_config\<lparr>metrics_mapper := []\<rparr>)]\<rparr>
          :: int check_state)
       (PyDict [(''prometheus_url'', PyStr ''http://foobar/endpoint'')])
     = (Some (CheckException (CollectAtLeastOneMetric (PyStr ''http://foobar/endpoint''))),
        example_state\<lparr>config_map :=
          [(PyStr ''http://foobar/endpoint'', example_config\<lparr>metrics_mapper := []\<rparr>)]\<rparr>)"
proof -
  let ?inst = "PyDict [(''prometheus_url'', PyStr ''http://foobar/endpoint'')]"
  let ?e = "PyStr ''http://foobar/endpoint''"
  let ?c = "example_config\<lparr>metrics_mapper := []\<rparr>"
  let ?st = "example_state\<lparr>config_map := [(?e, ?c)]\<rparr> :: int check_state"
  have h1: "py_get ?inst ''prometheus_url'' = Inr ?e" by simp
  have h2: "?e \<noteq> PyNone" by simp
  have h3: "get_scraper_config example_mixin ?st ?e ?inst = (Inr ?c, ?st)"
    by (simp add: get_scraper_config_def)
  have h4: "metrics_mapper ?c = []" by simp
  from check_empty_metrics_mapper [OF h1 h2 h3 h4] h1 h2 h3 h4 show ?thesis by simp
qed

text \<open>
  C6. When the instance has an endpoint and the configuration resolved for it has a
  non-empty \<open>metrics_mapper\<close>, \<open>check\<close> calls \<open>process\<close> once, with that endpoint,
  that configuration and \<open>ignore_unmapped = True\<close>, and ends as \<open>process\<close> ends: the
  recorded calls of \<open>process\<close> are the earlier ones followed by this one.
\<close>

theorem check_invokes_process_once:
  assumes "py_get inst ''prometheus_url'' = Inr endpoint"
    and "endpoint \<noteq> PyNone"
    and "get_scraper_config mx st endpoint inst = (Inr cfg, st')"
    and "metrics_mapper cfg \<noteq> []"
  shows "check mx st inst =
           (process mx endpoint cfg True,
            st'\<lparr>calls := calls st' @ [Process endpoint cfg True]\<rparr>) \<and>
         filter is_process (calls (snd (check mx st inst))) =
           filter is_process (calls st) @ [Process endpoint cfg True]"
proof -
  have c: "check mx st inst =
           (process mx endpoint cfg True,
            st'\<lparr>calls := calls st' @ [Process endpoint cfg True]\<rparr>)"
    using assms by (simp add: check_def)
  have "filter is_process (calls st') = filter is_process (calls st)"
    using get_scraper_config_process_calls [of mx st endpoint inst] assms(3) by simp
  with c show ?thesis by simp
qed

theorem check_invokes_process_once_witness:
  "py_get example_instance ''prometheus_url'' = Inr (PyStr ''http://foobar/endpoint'') \<and>
   PyStr ''http://foobar/endpoint'' \<noteq> PyNone \<and>
   get_scraper_config example_mixin (example_state :: int check_state)
       (PyStr ''http://foobar/endpoint'') example_instance
     = (Inr example_config,
        example_state\<lparr>calls := [CreateMixinConfiguration example_instance (PyDict []) PyNone],
                      config_map := [(PyStr ''http://foobar/endpoint'', example_config)]\<rparr>) \<and>
   metrics_mapper example_config \<noteq> [] \<and>
   check example_mixin (example_state :: int check_state) example_instance
     = (None,
        example_state\<lparr>calls := [CreateMixinConfiguration example_instance (PyDict []) PyNone,
                                 Process (PyStr ''http://foobar/endpoint'') example_config True],
                      config_map := [(PyStr ''http://foobar/endpoint'', example_config)]\<rparr>) \<and>
   filter is_process (calls (snd (check example_mixin (example_state :: int check_state)
                                     example_instance)))
     = [Process (PyStr ''http://foobar/endpoint'') example_config True]"
proof -
  let ?e = "PyStr ''http://foobar/endpoint''"
  let ?st' = "example_state\<lparr>calls := [CreateMixinConfiguration example_instance (PyDict []) PyNone],
                            config_map := [(?e, example_config)]\<rparr> :: int check_state"
  have h1: "py_get example_instance ''prometheus_url'' = Inr ?e"
    by (simp add: example_instance_def)
  have h2: "?e \<noteq> PyNone" by simp
  have h3: "get_scraper_config example_mixin (example_state :: int check_state) ?e example_instance
              = (Inr example_config, ?st')"
    by (simp add: get_scraper_config_def example_state_def example_mixin_def
                  example_instance_def)
  have h4: "metrics_mapper example_config \<noteq> []" by (simp add: example_config_def)
  from check_invokes_process_once [OF h1 h2 h3 h4] h1 h2 h3 h4 show ?thesis
    by (simp add: example_state_def example_mixin_def)
qed

text \<open>
  C9. The failure on an empty \<open>metrics_mapper\<close> is not atomic: when the endpoint was
  not a key of \<open>config_map\<close> and the builder returns a configuration with an empty
  \<open>metrics_mapper\<close>, \<open>check\<close> raises \<open>CheckException\<close> and the object's
  \<open>config_map\<close> holds the new configuration under the endpoint.
\<close>

theorem check_failure_stores_config:
  assumes "py_get inst ''prometheus_url'' = Inr endpoint"
    and "endpoint \<noteq> PyNone"
    and "hashable endpoint"
    and "map_of (config_map st) endpoint = None"
    and "create_mixin_configuration mx inst (default_instances st) (default_namespace st)
           = Inr cfg"
    and "metrics_mapper cfg = []"
  shows "fst (check mx st inst) = Some (CheckException (CollectAtLeastOneMetric endpoint)) \<and>
         config_map (snd (check mx st inst)) = config_map st @ [(endpoint, cfg)] \<and>
         map_of (config_map (snd (check mx st inst))) endpoint = Some cfg"
proof -
  let ?st' = "st\<lparr>calls := calls st @
                  [CreateMixinConfiguration inst (default_instances st) (default_namespace st)],
               config_map := config_map st @ [(endpoint, cfg)]\<rparr>"
  have g: "get_scraper_config mx st endpoint inst = (Inr cfg, ?st')"
    using assms(3-5) by (rule get_scraper_config_miss)
  have c: "check mx st inst = (Some (CheckException (CollectAtLeastOneMetric endpoint)), ?st')"
    using assms(1,2,6) g by (simp add: check_def)
  have "map_of (config_map ?st') endpoint = Some cfg"
    using g by (rule get_scraper_config_stored)
  with c show ?thesis by simp
qed

theorem check_failure_stores_config_witness:
  "py_get (PyDict [(''prometheus_url'', PyStr ''http://foobar/endpoint'')]) ''prometheus_url''
     = Inr (PyStr ''http://foobar/endpoint'') \<and>
   PyStr ''http://foobar/endpoint'' \<noteq> PyNone \<and>
   hashable (PyStr ''http://foobar/endpoint'') \<and>
   map_of (config_map (example_state :: int check_state)) (PyStr ''http://foobar/endpoint'')
     = None \<and>
   create_mixin_configuration example_mixin
       (PyDict [(''prometheus_url'', PyStr ''http://foobar/endpoint'')])
       (default_instances (example_state :: int check_state))
       (default_namespace (example_state :: int check_state))
     = Inr (example_config\<lparr>metrics_mapper := []\<rparr>) \<and>
   metrics_mapper (example_config\<lparr>metrics_mapper := []\<rparr>) = [] \<and>
   fst (check example_mixin (example_state :: int check_state)
          (PyDict [(''prometheus_url'', PyStr ''http://foobar/endpoint'')]))
     = Some (CheckException (CollectAtLeastOneMetric (PyStr ''http://foobar/endpoint''))) \<and>
   config_map (snd (check example_mixin (example_state :: int check_state)
          (PyDict [(''prometheus_url'', PyStr ''http://foobar/endpoint'')])))
     = [(PyStr ''http://foobar/endpoint'', example_config\<lparr>metrics_mapper := []\<rparr>)]"
proof -
  let ?inst = "PyDict [(''prometheus_url'', PyStr ''http://foobar/endpoint'')]"
  let ?e = "PyStr ''http://foobar/endpoint''"
  let ?c = "example_config\<lparr>metrics_mapper := []\<rparr>"
  have h1: "py_get ?inst ''prometheus_url'' = Inr ?e" by simp
  have h2: "?e \<noteq> PyNone" by simp
  have h3: "hashable ?e" by simp
  have h4: "map_of (config_map (example_state :: int check_state)) ?e = None"
    by (simp add: example_state_def)
  have h5: "create_mixin_configuration example_mixin ?inst
              (default_instances (example_state :: int check_state))
              (default_namespace (example_state :: int check_state)) = Inr ?c"
    by (simp add: example_mixin_def)
  have h6: "metrics_mapper ?c = []" by simp
  from check_failure_stores_config [OF h1 h2 h3 h4 h5 h6] h1 h2 h3 h4 h5 h6
  show ?thesis by (simp add: example_state_def)
qed

section \<open>The constructor\<close>

text \<open>
  C10. For every non-empty list of instances the constructor fails: the first
  iteration of its loop calls \<open>get_scraper_config\<close> with one argument where two are
  required, which raises the missing-argument \<open>TypeError\<close>; \<open>config_map\<close> is empty
  at that moment and the configuration builder has not been called.
\<close>

theorem init_nonempty_instances_fails:
  "instances \<noteq> [] \<Longrightarrow>
   init mx ns (Some instances) di dn =
     (Some (TypeError MissingPositionalArgument),
      \<lparr>config_map = [], default_instances = di, default_namespace = dn,
       NAMESPACE = ns, calls = []\<rparr>)"
  by (cases instances) (simp_all add: init_def call_get_scraper_config_def)

theorem init_nonempty_instances_fails_witness:
  "[example_instance] \<noteq> [] \<and>
   init example_mixin ''foo'' (Some [example_instance]) (PyDict []) PyNone =
     (Some (TypeError MissingPositionalArgument), (example_state :: int check_state))"
  using init_nonempty_instances_fails
          [of "[example_instance]" example_mixin "''foo''" "PyDict []" PyNone]
  by (simp add: example_state_def)

section \<open>get_scraper_config\<close>

text \<open>
  C3. \<open>get_scraper_config\<close> is get-or-create over \<open>config_map\<close>, keyed by the
  endpoint string. If the endpoint is a key, the stored configuration is returned and
  the state, with its record of builder calls, is unchanged. Otherwise the builder is
  called once and what it returns is stored under the endpoint and returned. Once a
  call for an endpoint has returned a configuration, a later call for the same
  endpoint, after any sequence of calls on the object, returns the same configuration
  without calling the builder. Over any sequence of calls an entry of the map is never
  removed or replaced and the keys of the map stay pairwise distinct; they are distinct
  from construction on.
\<close>

theorem get_scraper_config_get_or_create:
  "(map_of (config_map st) (PyStr e) = Some c \<longrightarrow>
      get_scraper_config mx st (PyStr e) i = (Inr c, st)) \<and>
   (map_of (config_map st) (PyStr e) = None \<and>
    create_mixin_configuration mx i (default_instances st) (default_namespace st) = Inr c \<longrightarrow>
      get_scraper_config mx st (PyStr e) i =
        (Inr c, st\<lparr>calls := calls st @
                     [CreateMixinConfiguration i (default_instances st) (default_namespace st)],
                  config_map := config_map st @ [(PyStr e, c)]\<rparr>)) \<and>
   (fst (get_scraper_config mx st (PyStr e) i) = Inr c \<longrightarrow>
      get_scraper_config mx (run mx h (snd (get_scraper_config mx st (PyStr e) i)) ops) (PyStr e) i' =
        (Inr c, run mx h (snd (get_scraper_config mx st (PyStr e) i)) ops)) \<and>
   (map_of (config_map st) k = Some c \<longrightarrow> map_of (config_map (run mx h st ops)) k = Some c) \<and>
   (distinct (map fst (config_map st)) \<longrightarrow> distinct (map fst (config_map (run mx h st ops)))) \<and>
   distinct (map fst (config_map (run mx h (snd (init mx ns insts di dn)) ops)))"
proof -
  have hit: "map_of (config_map st) (PyStr e) = Some c \<longrightarrow>
      get_scraper_config mx st (PyStr e) i = (Inr c, st)"
    by (simp add: get_scraper_config_hit)
  have miss: "map_of (config_map st) (PyStr e) = None \<and>
    create_mixin_configuration mx i (default_instances st) (default_namespace st) = Inr c \<longrightarrow>
      get_scraper_config mx st (PyStr e) i =
        (Inr c, st\<lparr>calls := calls st @
                     [CreateMixinConfiguration i (default_instances st) (default_namespace st)],
                  config_map := config_map st @ [(PyStr e, c)]\<rparr>)"
    by (simp add: get_scraper_config_miss)
  have twice: "fst (get_scraper_config mx st (PyStr e) i) = Inr c \<longrightarrow>
      get_scraper_config mx (run mx h (snd (get_scraper_config mx st (PyStr e) i)) ops) (PyStr e) i' =
        (Inr c, run mx h (snd (get_scraper_config mx st (PyStr e) i)) ops)"
  proof
    assume r: "fst (get_scraper_config mx st (PyStr e) i) = Inr c"
    obtain st' where g: "get_scraper_config mx st (PyStr e) i = (Inr c, st')"
      using r by (cases "get_scraper_config mx st (PyStr e) i") simp
    from g have "map_of (config_map st') (PyStr e) = Some c"
      by (rule get_scraper_config_stored)
    then have "map_of (config_map (run mx h st' ops)) (PyStr e) = Some c"
      by (rule run_keeps)
    then have "get_scraper_config mx (run mx h st' ops) (PyStr e) i' = (Inr c, run mx h st' ops)"
      by (simp add: get_scraper_config_hit)
    with g show "get_scraper_config mx (run mx h (snd (get_scraper_config mx st (PyStr e) i)) ops)
        (PyStr e) i' = (Inr c, run mx h (snd (get_scraper_config mx st (PyStr e) i)) ops)"
      by simp
  qed
  have keep: "map_of (config_map st) k = Some c \<longrightarrow> map_of (config_map (run mx h st ops)) k = Some c"
    by (simp add: run_keeps)
  have dist: "distinct (map fst (config_map st)) \<longrightarrow> distinct (map fst (config_map (run mx h st ops)))"
    by (simp add: run_distinct)
  have life: "distinct (map fst (config_map (run mx h (snd (init mx ns insts di dn)) ops)))"
    by (rule run_distinct) (rule init_distinct)
  from hit miss twice keep dist life show ?thesis by blast
qed

theorem get_scraper_config_get_or_create_witness:
  "map_of (config_map (example_state :: int check_state)) (PyStr ''http://foobar/endpoint'') = None \<and>
   create_mixin_configuration example_mixin example_instance
     (default_instances (example_state :: int check_state))
     (default_namespace (example_state :: int check_state)) = Inr example_config \<and>
   get_scraper_config example_mixin (example_state :: int check_state)
       (PyStr ''http://foobar/endpoint'') example_instance =
     (Inr example_config,
      example_state\<lparr>calls := [CreateMixinConfiguration example_instance (PyDict []) PyNone],
                    config_map := [(PyStr ''http://foobar/endpoint'', example_config)]\<rparr>) \<and>
   get_scraper_config example_mixin
       (run example_mixin finalize_tags_to_submit
          (example_state\<lparr>calls := [CreateMixinConfiguration example_instance (PyDict []) PyNone],
                    config_map := [(PyStr ''http://foobar/endpoint'', example_config)]\<rparr>)
          [OpCheck (PyDict [(''prometheus_url'', PyStr ''http://other'')]),
           OpSubmitGauge ''up'' (1::int) example_sample (ArgConfig example_config) None])
       (PyStr ''http://foobar/endpoint'') (PyDict []) =
     (Inr example_config,
      run example_mixin finalize_tags_to_submit
          (example_state\<lparr>calls := [CreateMixinConfiguration example_instance (PyDict []) PyNone],
                    config_map := [(PyStr ''http://foobar/endpoint'', example_config)]\<rparr>)
          [OpCheck (PyDict [(''prometheus_url'', PyStr ''http://other'')]),
           OpSubmitGauge ''up'' (1::int) example_sample (ArgConfig example_config) None]) \<and>
   map_of (config_map (example_state\<lparr>config_map := [(PyStr ''http://foobar/endpoint'', example_config)]\<rparr>
                         :: int check_state))
     (PyStr ''http://foobar/endpoint'') = Some example_config \<and>
   get_scraper_config example_mixin
       (example_state\<lparr>config_map := [(PyStr ''http://foobar/endpoint'', example_config)]\<rparr>
          :: int check_state)
       (PyStr ''http://foobar/endpoint'') (PyDict []) =
     (Inr example_config,
      example_state\<lparr>config_map := [(PyStr ''http://foobar/endpoint'', example_config)]\<rparr>) \<and>
   distinct (map fst (config_map
       (example_state\<lparr>config_map := [(PyStr ''http://foobar/endpoint'', example_config)]\<rparr>
          :: int check_state))) \<and>
   map_of (config_map (run example_mixin finalize_tags_to_submit
       (example_state\<lparr>config_map := [(PyStr ''http://foobar/endpoint'', example_config)]\<rparr>
          :: int check_state)
       [OpCheck (PyDict [(''prometheus_url'', PyStr ''http://other'')])]))
     (PyStr ''http://foobar/endpoint'') = Some example_config \<and>
   distinct (map fst (config_map (run example_mixin finalize_tags_to_submit
       (example_state\<lparr>config_map := [(PyStr ''http://foobar/endpoint'', example_config)]\<rparr>
          :: int check_state)
       [OpCheck (PyDict [(''prometheus_url'', PyStr ''http://other'')])])))"
proof -
  let ?e = "''http://foobar/endpoint''"
  let ?ops = "[OpCheck (PyDict [(''prometheus_url'', PyStr ''http://other'')]),
               OpSubmitGauge ''up'' (1::int) example_sample (ArgConfig example_config) None]"
  let ?st1 = "example_state\<lparr>config_map := [(PyStr ?e, example_config)]\<rparr> :: int check_state"
  have m1: "map_of (config_map (example_state :: int check_state)) (PyStr ?e) = None"
    by (simp add: example_state_def)
  have m2: "create_mixin_configuration example_mixin example_instance
     (default_instances (example_state :: int check_state))
     (default_namespace (example_state :: int check_state)) = Inr example_config"
    by (simp add: example_mixin_def example_instance_def)
  have m3: "map_of (config_map ?st1) (PyStr ?e) = Some example_config" by simp
  have m4: "distinct (map fst (config_map ?st1))" by simp
  note fresh = get_scraper_config_get_or_create
     [where st = "example_state :: int check_state" and e = ?e and c = example_config
        and mx = example_mixin and i = example_instance and h = finalize_tags_to_submit
        and ops = ?ops and i' = "PyDict []" and k = "PyStr ?e" and ns = "''foo''"
        and insts = None and di = "PyDict []" and dn = PyNone]
  note cached = get_scraper_config_get_or_create
     [where st = ?st1 and e = ?e and c = example_config
        and mx = example_mixin and i = "PyDict []" and h = finalize_tags_to_submit
        and ops = "[OpCheck (PyDict [(''prometheus_url'', PyStr ''http://other'')])]"
        and i' = "PyDict []" and k = "PyStr ?e" and ns = "''foo''"
        and insts = None and di = "PyDict []" and dn = PyNone]
  have f2: "get_scraper_config example_mixin (example_state :: int check_state)
       (PyStr ?e) example_instance =
     (Inr example_config,
      example_state\<lparr>calls := [CreateMixinConfiguration example_instance (PyDict []) PyNone],
                    config_map := [(PyStr ?e, example_config)]\<rparr>)"
    using fresh m1 m2 by (simp add: example_state_def)
  have f3: "get_scraper_config example_mixin
       (run example_mixin finalize_tags_to_submit
          (example_state\<lparr>calls := [CreateMixinConfiguration example_instance (PyDict []) PyNone],
                    config_map := [(PyStr ?e, example_config)]\<rparr>) ?ops)
       (PyStr ?e) (PyDict []) =
     (Inr example_config,
      run example_mixin finalize_tags_to_submit
          (example_state\<lparr>calls := [CreateMixinConfiguration example_instance (PyDict []) PyNone],
                    config_map := [(PyStr ?e, example_config)]\<rparr>) ?ops)"
    using fresh f2 by (simp only: fst_conv snd_conv simp_thms)
  have c1: "get_scraper_config example_mixin ?st1 (PyStr ?e) (PyDict []) = (Inr example_config, ?st1)"
    using cached m3 by blast
  have c4: "map_of (config_map (run example_mixin finalize_tags_to_submit ?st1
       [OpCheck (PyDict [(''prometheus_url'', PyStr ''http://other'')])]))
     (PyStr ?e) = Some example_config"
    using cached m3 by blast
  have c5: "distinct (map fst (config_map (run example_mixin finalize_tags_to_submit ?st1
       [OpCheck (PyDict [(''prometheus_url'', PyStr ''http://other'')])])))"
    using cached m4 by blast
  from m1 m2 f2 f3 m3 c1 m4 c4 c5 show ?thesis by blast
qed

section \<open>Tags\<close>

text \<open>
  C4. For a sample with the labels \<open>instance = a\<close> and \<open>job = x\<close>, in either order,
  and a configuration with \<open>custom_tags = ['env:prod']\<close>, \<open>exclude_labels = ['job']\<close>
  and \<open>labels_mapper = {'instance': 'host'}\<close>, \<open>_metric_tags\<close> with the default hook
  returns the tags \<open>env:prod\<close> and \<open>host:a\<close> and no tag for the \<open>job\<close> label.
\<close>

theorem metric_tags_example:
  "metric_tags finalize_tags_to_submit metric_name val
     \<lparr>label = [\<lparr>label_name = ''instance'', label_value = ''a''\<rparr>,
               \<lparr>label_name = ''job'', label_value = ''x''\<rparr>]\<rparr>
     (ArgConfig \<lparr>metrics_mapper = mm, custom_tags = [''env:prod''], exclude_labels = [''job''],
                 labels_mapper = [(''instance'', ''host'')], namespace = ns\<rparr>) hostname
     = Inr [''env:prod'', ''host:a''] \<and>
   metric_tags finalize_tags_to_submit metric_name val
     \<lparr>label = [\<lparr>label_name = ''job'', label_value = ''x''\<rparr>,
               \<lparr>label_name = ''instance'', label_value = ''a''\<rparr>]\<rparr>
     (ArgConfig \<lparr>metrics_mapper = mm, custom_tags = [''env:prod''], exclude_labels = [''job''],
                 labels_mapper = [(''instance'', ''host'')], namespace = ns\<rparr>) hostname
     = Inr [''env:prod'', ''host:a''] \<and>
   set [''env:prod'', ''host:a''] = {''env:prod'', ''host:a''} \<and>
   ''job:x'' \<notin> set [''env:prod'', ''host:a'']"
  by (simp add: metric_tags_def finalize_tags_to_submit_def)

section \<open>Submissions\<close>

text \<open>
  C5. \<open>_submit_gauge('up', 1, sample)\<close> on an object whose \<open>NAMESPACE\<close> is \<open>foo\<close>:
  the fourth parameter \<open>custom_tags\<close> takes its default \<open>None\<close>, \<open>_metric_tags\<close>
  subscripts it, and the call ends with \<open>TypeError\<close> before any emission. A list of
  tags in that position, the use the docstring describes, ends with \<open>TypeError\<close> as
  well. One gauge named \<open>foo.up\<close> is emitted only when the scraper configuration
  itself is passed as \<open>custom_tags\<close> (lemma \<open>submit_with_config\<close>).
\<close>

theorem submit_gauge_without_config:
  "submit_gauge finalize_tags_to_submit (st\<lparr>NAMESPACE := ''foo''\<rparr>) ''up'' (1::int) sample ArgNone None
     = (Some (TypeError NotSubscriptable), st\<lparr>NAMESPACE := ''foo''\<rparr>) \<and>
   submit_gauge finalize_tags_to_submit (st\<lparr>NAMESPACE := ''foo''\<rparr>) ''up'' (1::int) sample
       (ArgTags [''env:prod'']) None
     = (Some (TypeError BadIndexType), st\<lparr>NAMESPACE := ''foo''\<rparr>)"
  by (simp add: submit_gauge_def metric_tags_def)

text \<open>
  C8. Each of \<open>_submit_rate\<close>, \<open>_submit_gauge\<close> and \<open>_submit_monotonic_count\<close>
  emits the tags the hook returns for the tags computed from the custom tags and the
  labels. With the hook overridden to append a fixed tag, every emission carries the
  tags the default hook gives followed by that tag; a call that raises under the
  default hook raises the same error and emits nothing.
\<close>

theorem submissions_route_through_hook:
  "submit_rate h st n v m (ArgConfig cfg) hn =
     (None, st\<lparr>calls := calls st @
        [Rate (NAMESPACE st @ ''.'' @ n) v
           (h (metric_tags_loop cfg (label m) (custom_tags cfg)) n v m (Some (custom_tags cfg)) hn) hn]\<rparr>) \<and>
   submit_gauge h st n v m (ArgConfig cfg) hn =
     (None, st\<lparr>calls := calls st @
        [Gauge (NAMESPACE st @ ''.'' @ n) v
           (h (metric_tags_loop cfg (label m) (custom_tags cfg)) n v m (Some (custom_tags cfg)) hn) hn]\<rparr>) \<and>
   submit_monotonic_count h st n v m (ArgConfig cfg) hn =
     (None, st\<lparr>calls := calls st @
        [MonotonicCount (NAMESPACE st @ ''.'' @ n) v
           (h (metric_tags_loop cfg (label m) (custom_tags cfg)) n v m (Some (custom_tags cfg)) hn) hn]\<rparr>) \<and>
   submit_rate (\<lambda>tags n' v' m' c' hn'. tags @ [t]) st n v m arg hn =
     (case metric_tags finalize_tags_to_submit n v m arg hn of
        Inl e \<Rightarrow> (Some e, st)
      | Inr tags \<Rightarrow>
          (None, st\<lparr>calls := calls st @ [Rate (NAMESPACE st @ ''.'' @ n) v (tags @ [t]) hn]\<rparr>)) \<and>
   submit_gauge (\<lambda>tags n' v' m' c' hn'. tags @ [t]) st n v m arg hn =
     (case metric_tags finalize_tags_to_submit n v m arg hn of
        Inl e \<Rightarrow> (Some e, st)
      | Inr tags \<Rightarrow>
          (None, st\<lparr>calls := calls st @ [Gauge (NAMESPACE st @ ''.'' @ n) v (tags @ [t]) hn]\<rparr>)) \<and>
   submit_monotonic_count (\<lambda>tags n' v' m' c' hn'. tags @ [t]) st n v m arg hn =
     (case metric_tags finalize_tags_to_submit n v m arg hn of
        Inl e \<Rightarrow> (Some e, st)
      | Inr tags \<Rightarrow>
          (None, st\<lparr>calls := calls st @
                      [MonotonicCount (NAMESPACE st @ ''.'' @ n) v (tags @ [t]) hn]\<rparr>))"
proof -
  have a: "submit_rate (\<lambda>tags n' v' m' c' hn'. tags @ [t]) st n v m arg hn =
     (case metric_tags finalize_tags_to_submit n v m arg hn of
        Inl e \<Rightarrow> (Some e, st)
      | Inr tags \<Rightarrow>
          (None, st\<lparr>calls := calls st @ [Rate (NAMESPACE st @ ''.'' @ n) v (tags @ [t]) hn]\<rparr>))"
    by (simp add: submit_rate_def metric_tags_def finalize_tags_to_submit_def split: tags_arg.splits)
  have b: "submit_gauge (\<lambda>tags n' v' m' c' hn'. tags @ [t]) st n v m arg hn =
     (case metric_tags finalize_tags_to_submit n v m arg hn of
        Inl e \<Rightarrow> (Some e, st)
      | Inr tags \<Rightarrow>
          (None, st\<lparr>calls := calls st @ [Gauge (NAMESPACE st @ ''.'' @ n) v (tags @ [t]) hn]\<rparr>))"
    by (simp add: submit_gauge_def metric_tags_def finalize_tags_to_submit_def split: tags_arg.splits)
  have c: "submit_monotonic_count (\<lambda>tags n' v' m' c' hn'. tags @ [t]) st n v m arg hn =
     (case metric_tags finalize_tags_to_submit n v m arg hn of
        Inl e \<Rightarrow> (Some e, st)
      | Inr tags \<Rightarrow>
          (None, st\<lparr>calls := calls st @
                      [MonotonicCount (NAMESPACE st @ ''.'' @ n) v (tags @ [t]) hn]\<rparr>))"
    by (simp add: submit_monotonic_count_def metric_tags_def finalize_tags_to_submit_def
             split: tags_arg.splits)
  from a b c show ?thesis by (simp only: submit_with_config simp_thms)
qed

theorem submissions_route_through_hook_witness:
  "submit_gauge (\<lambda>tags n' v' m' c' hn'. tags @ [''team:infra'']) (example_state :: int check_state)
      ''up'' 1 example_sample (ArgConfig example_config) None =
     (None, example_state\<lparr>calls := [Gauge ''foo.up'' 1 [''env:prod'', ''host:a'', ''team:infra''] None]\<rparr>) \<and>
   submit_rate (\<lambda>tags n' v' m' c' hn'. tags @ [''team:infra'']) (example_state :: int check_state)
      ''up'' 1 example_sample (ArgConfig example_config) None =
     (None, example_state\<lparr>calls := [Rate ''foo.up'' 1 [''env:prod'', ''host:a'', ''team:infra''] None]\<rparr>) \<and>
   submit_monotonic_count (\<lambda>tags n' v' m' c' hn'. tags @ [''team:infra'']) (example_state :: int check_state)
      ''up'' 1 example_sample (ArgConfig example_config) None =
     (None, example_state\<lparr>calls := [MonotonicCount ''foo.up'' 1 [''env:prod'', ''host:a'', ''team:infra''] None]\<rparr>)"
  using submissions_route_through_hook
     [of "\<lambda>tags n' v' m' c' hn'. tags @ [''team:infra'']" "example_state :: int check_state"
         "''up''" 1 example_sample example_config None "''team:infra''" "ArgConfig example_config"]
  by (simp add: example_state_def example_sample_def example_config_def)

end
